theory Spec2Isabelle
  imports Main "HOL-Library.Word"
begin

section \<open>Data model\<close>

text \<open>
  The operators of \<^verbatim>\<open>caffe2/operators/concat_split_op.h\<close> signal every failure through
  \<^verbatim>\<open>CAFFE_ENFORCE\<close>/\<^verbatim>\<open>CAFFE_THROW\<close>. Each enforce of the file is one constructor
  below, named after the failure it reports. \<open>ExceedingNdimLimit\<close> is the range check
  of the tensor's own extent accessor. \<open>UndefinedBehaviour\<close> is not an exception: it
  marks a run that leaves the defined behaviour of C++ (a read or write outside a
  buffer, a division by zero, a negative allocation size).

  Arithmetic is on mathematical integers: the model agrees with the source as long as
  no \<^verbatim>\<open>int\<close> computation of the source overflows.
\<close>

type_synonym byte = "8 word"

datatype error =
    ConflictingConfiguration
  | UnsupportedStorageOrder string
  | AxisOutOfRange
  | SizeMismatch
  | IndivisibleSplit
  | ShapeSumMismatch
  | TypeMismatch string string nat
  | ShapeMismatch int int nat nat int "int list" "int list"
  | ExceedingNdimLimit
  | UndefinedBehaviour

text \<open>
  \<open>TypeMismatch expected got i\<close> carries the two type names and the offending input;
  \<open>ShapeMismatch dim dim_j i j canonical_axis shape0 shapej\<close> carries what the enforce
  of the source prints: the two extents, the dimension, the input, the axis and the
  two shapes.
\<close>

record TypeMeta =
  itemsize :: nat
  name :: string

record Tensor =
  sizes :: "int list"
  dtype :: TypeMeta
  raw_data :: "byte list"

text \<open>
  A host tensor read through \<^verbatim>\<open>data<int>()\<close> or written through
  \<^verbatim>\<open>mutable_data<int>()\<close>: the split sizes, the lengths, the axis-extent record.
\<close>

record IntTensor =
  isizes :: "int list"
  idata :: "int list"

datatype StorageOrder = UNKNOWN | NHWC | NCHW

record OperatorDef =
  arg_axis :: "int option"
  arg_order :: "string option"
  arg_add_axis :: "int option"
  arg_split :: "int list"

record SplitOp =
  SplitOp_axis :: int
  SplitOp_add_axis :: int
  SplitOp_split :: "int list"

record SplitByLengthsOp =
  SplitByLengthsOp_axis :: int

record ConcatOp =
  ConcatOp_axis :: int
  ConcatOp_add_axis :: int

section \<open>The tensor interface\<close>

definition ndim :: "Tensor \<Rightarrow> int" where
  "ndim t = int (length (sizes t))"

definition numel :: "Tensor \<Rightarrow> int" where
  "numel t = prod_list (sizes t)"

definition inumel :: "IntTensor \<Rightarrow> int" where
  "inumel t = prod_list (isizes t)"

text \<open>
  Modelled from the spec: the extent accessor \<^verbatim>\<open>dim32\<close> of the tensor class is not in
  the source file. The spec's tensor has a shape, an ordered sequence of extents; reading
  the extent at an index outside the shape is the accessor's own failure.
\<close>

definition dim32 :: "Tensor \<Rightarrow> int \<Rightarrow> error + int" where
  "dim32 t i =
     (if 0 \<le> i \<and> i < ndim t then Inr (sizes t ! nat i) else Inl ExceedingNdimLimit)"

text \<open>
  Modelled from the spec: \<^verbatim>\<open>canonical_axis_index_\<close> (here \<open>canonical_axis_index'\<close>) is not in the
  source file. Spec 4.1:
  a non-negative raw axis is the canonical axis; a negative one resolves to rank plus
  raw axis; the resolution fails with \<open>AxisOutOfRange\<close> when the canonical axis is not
  in \<open>[0, ndims)\<close>. The rank it is given is the caller's: the input's rank in the split
  operators, \<^verbatim>\<open>adj_size\<close> in the concat operator.
\<close>

definition canonical_axis_index' :: "int \<Rightarrow> int \<Rightarrow> error + int" where
  "canonical_axis_index' axis_index ndims =
     (let canonical = (if axis_index \<ge> 0 then axis_index else ndims + axis_index)
      in if 0 \<le> canonical \<and> canonical < ndims then Inr canonical else Inl AxisOutOfRange)"

definition canonical_axis_index :: "Tensor \<Rightarrow> int \<Rightarrow> error + int" where
  "canonical_axis_index t axis_index = canonical_axis_index' axis_index (ndim t)"

text \<open>
  Modelled from the spec: \<^verbatim>\<open>size_to_dim\<close> and \<^verbatim>\<open>size_from_dim\<close> are not in the source
  file; they are the products of the extents before and from a dimension (the
  before/after decomposition of the glossary).
\<close>

definition size_to_dim :: "Tensor \<Rightarrow> int \<Rightarrow> int" where
  "size_to_dim t k = prod_list (take (nat k) (sizes t))"

definition size_from_dim :: "Tensor \<Rightarrow> int \<Rightarrow> int" where
  "size_from_dim t k = prod_list (drop (nat k) (sizes t))"

text \<open>
  Modelled from the spec: tensor resizing and buffer access are external collaborators
  (spec 1 and 6). \<open>Resize\<close> sets the shape. \<open>raw_mutable_data\<close> sets the element type
  and hands out a buffer of extent product times item size bytes (the tensor invariant
  of spec 3). A byte that was never written holds what the old buffer held at that
  place, and 0 past its end; the theorems below hold for every old buffer.
\<close>

definition Resize :: "Tensor \<Rightarrow> int list \<Rightarrow> Tensor" where
  "Resize t dims = t\<lparr>sizes := dims\<rparr>"

definition raw_mutable_data :: "Tensor \<Rightarrow> TypeMeta \<Rightarrow> error + Tensor" where
  "raw_mutable_data t meta =
     (if numel t < 0 then Inl UndefinedBehaviour
      else let n = nat (numel t) * itemsize meta
           in Inr (t\<lparr>dtype := meta, raw_data := take n (raw_data t @ replicate n 0)\<rparr>))"

definition IResize :: "IntTensor \<Rightarrow> int list \<Rightarrow> IntTensor" where
  "IResize t dims = t\<lparr>isizes := dims\<rparr>"

definition mutable_data_int :: "IntTensor \<Rightarrow> error + IntTensor" where
  "mutable_data_int t =
     (if inumel t < 0 then Inl UndefinedBehaviour
      else let n = nat (inumel t)
           in Inr (t\<lparr>idata := take n (idata t @ replicate n 0)\<rparr>))"

text \<open>
  \<^verbatim>\<open>data<int>()\<close> gives the \<open>numel\<close> integers of the tensor; a tensor whose buffer
  does not hold that many breaks the tensor invariant, and reading it is undefined.
\<close>

definition data_int :: "IntTensor \<Rightarrow> error + int list" where
  "data_int t =
     (if 0 \<le> inumel t \<and> nat (inumel t) \<le> length (idata t)
      then Inr (take (nat (inumel t)) (idata t)) else Inl UndefinedBehaviour)"

section \<open>The strided copy\<close>

text \<open>
  \<open>memcpy dst d src s n\<close> copies \<open>n\<close> bytes from offset \<open>s\<close> of \<open>src\<close> to offset \<open>d\<close> of
  \<open>dst\<close>.
\<close>

definition memcpy :: "byte list \<Rightarrow> nat \<Rightarrow> byte list \<Rightarrow> nat \<Rightarrow> nat \<Rightarrow> error + byte list" where
  "memcpy dst d src s n =
     (if s + n \<le> length src \<and> d + n \<le> length dst
      then Inr (take d dst @ take n (drop s src) @ drop (d + n) dst)
      else Inl UndefinedBehaviour)"

fun copy_rows ::
  "nat \<Rightarrow> nat \<Rightarrow> byte list \<Rightarrow> nat \<Rightarrow> nat \<Rightarrow> byte list \<Rightarrow> nat \<Rightarrow> nat \<Rightarrow> error + byte list" where
  "copy_rows 0 n A a lda B b ldb = Inr B"
| "copy_rows (Suc m) n A a lda B b ldb =
     (case memcpy B b A a n of
        Inl e \<Rightarrow> Inl e
      | Inr B' \<Rightarrow> copy_rows m n A (a + lda) lda B' (b + ldb) ldb)"

text \<open>
  Modelled from the spec: \<^verbatim>\<open>math::CopyMatrix\<close> is not in the source file. Spec 6: a
  strided-matrix copy \<open>(itemSize, rows, cols, src, srcRowStride, dst, dstRowStride)\<close>;
  spec 4.2: row \<open>i\<close> of \<open>N\<close> items is read at \<open>lda * i\<close> items past the source pointer and
  written at \<open>ldb * i\<close> items past the destination pointer. A pointer is a buffer and a
  byte offset into it. Fewer than one row copies nothing.
\<close>

definition CopyMatrix ::
  "nat \<Rightarrow> int \<Rightarrow> int \<Rightarrow> byte list \<Rightarrow> int \<Rightarrow> int \<Rightarrow> byte list \<Rightarrow> int \<Rightarrow> int \<Rightarrow> error + byte list" where
  "CopyMatrix itemsz M N A a_off lda B b_off ldb =
     (if M \<le> 0 then Inr B
      else if N < 0 \<or> lda < 0 \<or> ldb < 0 \<or> a_off < 0 \<or> b_off < 0 then Inl UndefinedBehaviour
      else copy_rows (nat M) (itemsz * nat N) A (nat a_off) (itemsz * nat lda)
             B (nat b_off) (itemsz * nat ldb))"

section \<open>Construction\<close>

text \<open>
  \<^verbatim>\<open>StringToStorageOrder\<close> is not in the source file; the constructors take it as the
  parameter \<open>sto\<close>.
\<close>

definition GetDimFromOrderString :: "(string \<Rightarrow> StorageOrder) \<Rightarrow> string \<Rightarrow> error + int" where
  "GetDimFromOrderString sto str =
     (case sto str of
        NHWC \<Rightarrow> Inr 3
      | NCHW \<Rightarrow> Inr 1
      | UNKNOWN \<Rightarrow> Inl (UnsupportedStorageOrder str))"

definition HasArgument_axis :: "OperatorDef \<Rightarrow> bool" where
  "HasArgument_axis d = (arg_axis d \<noteq> None)"

definition HasArgument_order :: "OperatorDef \<Rightarrow> bool" where
  "HasArgument_order d = (arg_order d \<noteq> None)"

definition GetSingleArgument_int :: "int option \<Rightarrow> int \<Rightarrow> int" where
  "GetSingleArgument_int a default_value = (case a of Some v \<Rightarrow> v | None \<Rightarrow> default_value)"

definition GetSingleArgument_string :: "string option \<Rightarrow> string \<Rightarrow> string" where
  "GetSingleArgument_string a default_value = (case a of Some v \<Rightarrow> v | None \<Rightarrow> default_value)"

definition SplitOp_ctor :: "(string \<Rightarrow> StorageOrder) \<Rightarrow> OperatorDef \<Rightarrow> error + SplitOp" where
  "SplitOp_ctor sto d =
     (if HasArgument_axis d \<and> HasArgument_order d then Inl ConflictingConfiguration
      else if HasArgument_axis d then
        Inr \<lparr>SplitOp_axis = GetSingleArgument_int (arg_axis d) (- 1),
             SplitOp_add_axis = GetSingleArgument_int (arg_add_axis d) 0,
             SplitOp_split = arg_split d\<rparr>
      else
        (case GetDimFromOrderString sto (GetSingleArgument_string (arg_order d) ''NCHW'') of
           Inl e \<Rightarrow> Inl e
         | Inr a \<Rightarrow> Inr \<lparr>SplitOp_axis = a, SplitOp_add_axis = 0, SplitOp_split = arg_split d\<rparr>))"

definition SplitByLengthsOp_ctor ::
  "(string \<Rightarrow> StorageOrder) \<Rightarrow> OperatorDef \<Rightarrow> error + SplitByLengthsOp" where
  "SplitByLengthsOp_ctor sto d =
     (if HasArgument_axis d \<and> HasArgument_order d then Inl ConflictingConfiguration
      else if HasArgument_axis d then
        Inr \<lparr>SplitByLengthsOp_axis = GetSingleArgument_int (arg_axis d) 0\<rparr>
      else
        (case GetDimFromOrderString sto (GetSingleArgument_string (arg_order d) ''NCHW'') of
           Inl e \<Rightarrow> Inl e
         | Inr a \<Rightarrow> Inr \<lparr>SplitByLengthsOp_axis = a\<rparr>))"

definition ConcatOp_ctor :: "(string \<Rightarrow> StorageOrder) \<Rightarrow> OperatorDef \<Rightarrow> error + ConcatOp" where
  "ConcatOp_ctor sto d =
     (if HasArgument_axis d \<and> HasArgument_order d then Inl ConflictingConfiguration
      else if HasArgument_axis d then
        Inr \<lparr>ConcatOp_axis = GetSingleArgument_int (arg_axis d) (- 1),
             ConcatOp_add_axis = GetSingleArgument_int (arg_add_axis d) 0\<rparr>
      else
        (case GetDimFromOrderString sto (GetSingleArgument_string (arg_order d) ''NCHW'') of
           Inl e \<Rightarrow> Inl e
         | Inr a \<Rightarrow> Inr \<lparr>ConcatOp_axis = a, ConcatOp_add_axis = 0\<rparr>))"

section \<open>SplitOp::RunOnDevice\<close>

text \<open>
  Lines 128 to 156: where the per-output extents \<^verbatim>\<open>axis_data\<close> come from. The optional
  second input is \<open>Some\<close> exactly when \<^verbatim>\<open>InputSize() == kSplitOpInputSize\<close>. The
  remainder and the quotient of the source are C's; the remainder is zero in C exactly
  when it is zero in HOL, and the quotient is then the same.
\<close>

definition SplitOp_axis_data ::
  "SplitOp \<Rightarrow> IntTensor option \<Rightarrow> int \<Rightarrow> int \<Rightarrow> error + int list" where
  "SplitOp_axis_data op split_tensor input_channels OutputSize =
     (case split_tensor of
        Some t \<Rightarrow>
          if length (SplitOp_split op) \<noteq> 0 then Inl ConflictingConfiguration
          else if inumel t \<noteq> OutputSize then Inl SizeMismatch
          else data_int t
      | None \<Rightarrow>
          if length (SplitOp_split op) = 0 then
            (if OutputSize = 0 then Inl UndefinedBehaviour
             else if input_channels mod OutputSize \<noteq> 0 then Inl IndivisibleSplit
             else Inr (replicate (nat OutputSize) (input_channels div OutputSize)))
          else if int (length (SplitOp_split op)) \<noteq> OutputSize then Inl SizeMismatch
          else Inr (SplitOp_split op))"

text \<open>
  Lines 175 to 194, the loop over the outputs: \<open>axis_data\<close> holds the extents from the
  current output on, the last argument the outputs from the current one on.
\<close>

fun SplitOp_copy_loop ::
  "Tensor \<Rightarrow> int \<Rightarrow> int \<Rightarrow> int \<Rightarrow> int \<Rightarrow> int list \<Rightarrow> int \<Rightarrow> int list \<Rightarrow> Tensor list
     \<Rightarrow> error + Tensor list" where
  "SplitOp_copy_loop input add_axis canonical_axis before_size after_size output_dims input_offset
       axis_data [] = Inr []"
| "SplitOp_copy_loop input add_axis canonical_axis before_size after_size output_dims input_offset
       axis_data (output # outputs) =
     (case axis_data of
        [] \<Rightarrow> Inl UndefinedBehaviour
      | a # axis_data' \<Rightarrow>
         (let axis_dim = (if add_axis \<noteq> 0 then 1 else a);
              output_dims' =
                (if add_axis = 0 then output_dims[nat canonical_axis := a] else output_dims)
          in case dim32 input canonical_axis of
               Inl e \<Rightarrow> Inl e
             | Inr input_channels \<Rightarrow>
          (case raw_mutable_data (Resize output output_dims') (dtype input) of
               Inl e \<Rightarrow> Inl e
             | Inr out \<Rightarrow>
          (case CopyMatrix (itemsize (dtype input)) before_size (axis_dim * after_size)
                    (raw_data input) input_offset (input_channels * after_size)
                    (raw_data out) 0 (axis_dim * after_size) of
               Inl e \<Rightarrow> Inl e
             | Inr buf \<Rightarrow>
          (case SplitOp_copy_loop input add_axis canonical_axis before_size after_size output_dims'
                    (input_offset + axis_dim * after_size * int (itemsize (dtype input)))
                    axis_data' outputs of
               Inl e \<Rightarrow> Inl e
             | Inr outs \<Rightarrow> Inr (out\<lparr>raw_data := buf\<rparr> # outs))))))"

text \<open>
  Lines 165 to 171: the products of the extents before and after the axis. Every index
  of the two loops is below the rank, so \<^verbatim>\<open>dim32\<close> cannot fail there.
\<close>

definition extent_product :: "Tensor \<Rightarrow> nat list \<Rightarrow> int" where
  "extent_product t is = foldl (\<lambda>acc i. acc * (sizes t ! i)) 1 is"

definition SplitOp_RunOnDevice ::
  "SplitOp \<Rightarrow> Tensor \<Rightarrow> IntTensor option \<Rightarrow> Tensor list \<Rightarrow> error + Tensor list" where
  "SplitOp_RunOnDevice op input split_tensor outputs =
     (let OutputSize = int (length outputs) in
      case canonical_axis_index input (SplitOp_axis op) of
        Inl e \<Rightarrow> Inl e
      | Inr canonical_axis \<Rightarrow>
      if \<not> canonical_axis < ndim input then Inl AxisOutOfRange
      else
      (case dim32 input canonical_axis of
        Inl e \<Rightarrow> Inl e
      | Inr input_channels \<Rightarrow>
      (case SplitOp_axis_data op split_tensor input_channels OutputSize of
        Inl e \<Rightarrow> Inl e
      | Inr axis_data \<Rightarrow>
      if (if SplitOp_add_axis op \<noteq> 0 then OutputSize
          else sum_list (take (nat OutputSize) axis_data)) \<noteq> input_channels
      then Inl ShapeSumMismatch
      else
        (let before_size = extent_product input [0 ..< nat canonical_axis];
             after_size = extent_product input [nat canonical_axis + 1 ..< length (sizes input)];
             output_dims =
               (if SplitOp_add_axis op \<noteq> 0
                then take (nat canonical_axis) (sizes input)
                       @ drop (nat canonical_axis + 1) (sizes input)
                else sizes input)
         in SplitOp_copy_loop input (SplitOp_add_axis op) canonical_axis before_size after_size
              output_dims 0 axis_data outputs))))"

section \<open>SplitByLengthsOp::RunOnDevice\<close>

text \<open>
  Lines 222 to 240, the loop over the outputs: \<open>group_size\<close> is
  \<^verbatim>\<open>length_length / OutputSize()\<close>, \<open>i\<close> the index of the current output.
\<close>

fun SplitByLengthsOp_copy_loop ::
  "Tensor \<Rightarrow> int \<Rightarrow> int \<Rightarrow> int \<Rightarrow> int list \<Rightarrow> int \<Rightarrow> int list \<Rightarrow> int \<Rightarrow> nat \<Rightarrow> Tensor list
     \<Rightarrow> error + Tensor list" where
  "SplitByLengthsOp_copy_loop input canonical_axis before_size after_size output_dims input_offset
       axis_data group_size i [] = Inr []"
| "SplitByLengthsOp_copy_loop input canonical_axis before_size after_size output_dims input_offset
       axis_data group_size i (output # outputs) =
     (let axis_offset = group_size * int i;
          axis_dim = sum_list (take (nat group_size) (drop (nat axis_offset) axis_data));
          output_dims' = output_dims[nat canonical_axis := axis_dim]
      in case dim32 input canonical_axis of
           Inl e \<Rightarrow> Inl e
         | Inr input_channels \<Rightarrow>
      (case raw_mutable_data (Resize output output_dims') (dtype input) of
           Inl e \<Rightarrow> Inl e
         | Inr out \<Rightarrow>
      (case CopyMatrix (itemsize (dtype input)) before_size (axis_dim * after_size)
                (raw_data input) input_offset (input_channels * after_size)
                (raw_data out) 0 (axis_dim * after_size) of
           Inl e \<Rightarrow> Inl e
         | Inr buf \<Rightarrow>
      (case SplitByLengthsOp_copy_loop input canonical_axis before_size after_size output_dims'
                (input_offset + axis_dim * after_size * int (itemsize (dtype input)))
                axis_data group_size (Suc i) outputs of
           Inl e \<Rightarrow> Inl e
         | Inr outs \<Rightarrow> Inr (out\<lparr>raw_data := buf\<rparr> # outs)))))"

definition SplitByLengthsOp_RunOnDevice ::
  "SplitByLengthsOp \<Rightarrow> Tensor \<Rightarrow> IntTensor \<Rightarrow> Tensor list \<Rightarrow> error + Tensor list" where
  "SplitByLengthsOp_RunOnDevice op input lengths outputs =
     (let OutputSize = int (length outputs);
          length_length = inumel lengths
      in if OutputSize = 0 then Inl UndefinedBehaviour
      else if length_length mod OutputSize \<noteq> 0 then Inl SizeMismatch
      else
      (case canonical_axis_index input (SplitByLengthsOp_axis op) of
        Inl e \<Rightarrow> Inl e
      | Inr canonical_axis \<Rightarrow>
      if \<not> canonical_axis < ndim input then Inl AxisOutOfRange
      else
      (case dim32 input canonical_axis of
        Inl e \<Rightarrow> Inl e
      | Inr input_channels \<Rightarrow>
      (case data_int lengths of
        Inl e \<Rightarrow> Inl e
      | Inr axis_data \<Rightarrow>
      if sum_list axis_data \<noteq> input_channels then Inl ShapeSumMismatch
      else
        (let before_size = size_to_dim input canonical_axis;
             after_size = size_from_dim input (canonical_axis + 1)
         in SplitByLengthsOp_copy_loop input canonical_axis before_size after_size (sizes input) 0
              axis_data (length_length div OutputSize) 0 outputs)))))"

section \<open>ConcatOp::RunOnDevice\<close>

text \<open>Lines 254 to 263: every further input has the element type of input 0.\<close>

fun ConcatOp_check_dtypes :: "Tensor \<Rightarrow> nat \<Rightarrow> Tensor list \<Rightarrow> error option" where
  "ConcatOp_check_dtypes input_zero i [] = None"
| "ConcatOp_check_dtypes input_zero i (input # inputs) =
     (if dtype input = dtype input_zero
      then ConcatOp_check_dtypes input_zero (Suc i) inputs
      else Some (TypeMismatch (name (dtype input_zero)) (name (dtype input)) i))"

text \<open>Lines 278 to 298: the inputs from \<open>j\<close> on agree with \<open>dim\<close> at dimension \<open>i\<close>.\<close>

fun ConcatOp_check_dim ::
  "Tensor \<Rightarrow> int \<Rightarrow> nat \<Rightarrow> int \<Rightarrow> nat \<Rightarrow> Tensor list \<Rightarrow> error option" where
  "ConcatOp_check_dim input_zero canonical_axis i dim j [] = None"
| "ConcatOp_check_dim input_zero canonical_axis i dim j (input_j # inputs) =
     (case dim32 input_j (int i) of
        Inl e \<Rightarrow> Some e
      | Inr dim_j \<Rightarrow>
          if dim = dim_j
          then ConcatOp_check_dim input_zero canonical_axis i dim (Suc j) inputs
          else Some (ShapeMismatch dim dim_j i j canonical_axis
                       (sizes input_zero) (sizes input_j)))"

text \<open>
  Lines 267 to 299: the loop over the dimensions of input 0, run over the indices that
  are left; \<open>rest\<close> holds the inputs from 1 on.
\<close>

fun ConcatOp_dims_loop ::
  "Tensor \<Rightarrow> Tensor list \<Rightarrow> int \<Rightarrow> int \<Rightarrow> int \<times> int \<Rightarrow> nat list \<Rightarrow> error + int \<times> int" where
  "ConcatOp_dims_loop input_zero rest add_axis canonical_axis (before_size, after_size) [] =
     Inr (before_size, after_size)"
| "ConcatOp_dims_loop input_zero rest add_axis canonical_axis (before_size, after_size) (i # is) =
     (if int i = canonical_axis \<and> add_axis = 0
      then ConcatOp_dims_loop input_zero rest add_axis canonical_axis (before_size, after_size) is
      else
        (case dim32 input_zero (int i) of
           Inl e \<Rightarrow> Inl e
         | Inr dim \<Rightarrow>
            (case ConcatOp_check_dim input_zero canonical_axis i dim 1 rest of
               Some e \<Rightarrow> Inl e
             | None \<Rightarrow>
                 ConcatOp_dims_loop input_zero rest add_axis canonical_axis
                   (if int i < canonical_axis then (before_size * dim, after_size)
                    else (before_size, after_size * dim)) is)))"

text \<open>
  Lines 301 to 305: the axis-extent record and its sum. On a failure the record keeps
  the entries written so far.
\<close>

fun ConcatOp_axis_loop ::
  "int \<Rightarrow> int \<Rightarrow> nat \<Rightarrow> Tensor list \<Rightarrow> int list \<Rightarrow> int \<Rightarrow> error option \<times> int list \<times> int" where
  "ConcatOp_axis_loop add_axis canonical_axis i [] axis_data output_channels =
     (None, axis_data, output_channels)"
| "ConcatOp_axis_loop add_axis canonical_axis i (input # inputs) axis_data output_channels =
     (case (if add_axis \<noteq> 0 then Inr 1 else dim32 input canonical_axis) of
        Inl e \<Rightarrow> (Some e, axis_data, output_channels)
      | Inr v \<Rightarrow>
          ConcatOp_axis_loop add_axis canonical_axis (Suc i) inputs
            (axis_data[i := v]) (output_channels + v))"

text \<open>Lines 312 to 328: each input is copied to its place in the output.\<close>

fun ConcatOp_copy_loop ::
  "Tensor \<Rightarrow> int \<Rightarrow> int \<Rightarrow> int \<Rightarrow> int \<Rightarrow> int \<Rightarrow> int \<Rightarrow> Tensor list \<Rightarrow> Tensor
     \<Rightarrow> error option \<times> Tensor" where
  "ConcatOp_copy_loop input_zero add_axis canonical_axis before_size after_size output_channels
       output_offset [] output = (None, output)"
| "ConcatOp_copy_loop input_zero add_axis canonical_axis before_size after_size output_channels
       output_offset (input # inputs) output =
     (case (if add_axis \<noteq> 0 then Inr 1 else dim32 input canonical_axis) of
        Inl e \<Rightarrow> (Some e, output)
      | Inr axis_dim \<Rightarrow>
     (case raw_mutable_data output (dtype input_zero) of
        Inl e \<Rightarrow> (Some e, output)
      | Inr out \<Rightarrow>
     (case CopyMatrix (itemsize (dtype input)) before_size (axis_dim * after_size)
               (raw_data input) 0 (axis_dim * after_size)
               (raw_data out) output_offset (output_channels * after_size) of
        Inl e \<Rightarrow> (Some e, out)
      | Inr buf \<Rightarrow>
          ConcatOp_copy_loop input_zero add_axis canonical_axis before_size after_size output_channels
            (output_offset + axis_dim * after_size * int (itemsize (dtype input)))
            inputs (out\<lparr>raw_data := buf\<rparr>))))"

text \<open>
  The run takes the two output tensors as they are before the call and returns them as
  they are when the call returns or throws; the first component is \<open>None\<close> when the
  source returns \<^verbatim>\<open>true\<close>.
\<close>

definition ConcatOp_RunOnDevice ::
  "ConcatOp \<Rightarrow> Tensor list \<Rightarrow> Tensor \<times> IntTensor \<Rightarrow> error option \<times> Tensor \<times> IntTensor" where
  "ConcatOp_RunOnDevice op inputs outs =
     (case outs of (output, split) \<Rightarrow>
      let InputSize = int (length inputs);
          split0 = IResize split [InputSize]
      in case mutable_data_int split0 of
        Inl e \<Rightarrow> (Some e, output, split0)
      | Inr split1 \<Rightarrow>
      (case inputs of
        [] \<Rightarrow> (Some UndefinedBehaviour, output, split1)
      | input_zero # rest \<Rightarrow>
      (let adj_size = ndim input_zero + (if ConcatOp_add_axis op \<noteq> 0 then 1 else 0)
       in case canonical_axis_index' (ConcatOp_axis op) adj_size of
        Inl e \<Rightarrow> (Some e, output, split1)
      | Inr canonical_axis \<Rightarrow>
      if \<not> canonical_axis < adj_size then (Some AxisOutOfRange, output, split1)
      else
      (case ConcatOp_check_dtypes input_zero 1 rest of
        Some e \<Rightarrow> (Some e, output, split1)
      | None \<Rightarrow>
      (case ConcatOp_dims_loop input_zero rest (ConcatOp_add_axis op) canonical_axis (1, 1)
              [0 ..< length (sizes input_zero)] of
        Inl e \<Rightarrow> (Some e, output, split1)
      | Inr (before_size, after_size) \<Rightarrow>
      (case ConcatOp_axis_loop (ConcatOp_add_axis op) canonical_axis 0 inputs
              (idata split1) 0 of
        (Some e, axis_data, output_channels) \<Rightarrow> (Some e, output, split1\<lparr>idata := axis_data\<rparr>)
      | (None, axis_data, output_channels) \<Rightarrow>
        (let output_dims =
               (if ConcatOp_add_axis op \<noteq> 0
                then take (nat canonical_axis) (sizes input_zero) @ [output_channels]
                       @ drop (nat canonical_axis) (sizes input_zero)
                else (sizes input_zero)[nat canonical_axis := output_channels])
         in case ConcatOp_copy_loop input_zero (ConcatOp_add_axis op) canonical_axis
                   before_size after_size output_channels 0 inputs (Resize output output_dims) of
              (e, out) \<Rightarrow> (e, out, split1\<lparr>idata := axis_data\<rparr>))))))))"

text \<open>
  Two shorthands for the statements below: \<^verbatim>\<open>adj_size\<close> of line 251, and the side output
  after lines 248 and 249 have resized it to one entry per input.
\<close>

abbreviation adj_size_of :: "ConcatOp \<Rightarrow> Tensor \<Rightarrow> int" where
  "adj_size_of op z \<equiv> ndim z + (if ConcatOp_add_axis op \<noteq> 0 then 1 else 0)"

abbreviation resized_split :: "IntTensor \<Rightarrow> nat \<Rightarrow> IntTensor" where
  "resized_split split n \<equiv>
     \<lparr>isizes = [int n], idata = take n (idata split @ replicate n 0)\<rparr>"


section \<open>Example inputs\<close>

definition uint8_meta :: TypeMeta where
  "uint8_meta = \<lparr>itemsize = 1, name = ''uint8''\<rparr>"

definition int16_meta :: TypeMeta where
  "int16_meta = \<lparr>itemsize = 2, name = ''int16''\<rparr>"

text \<open>An output tensor that was never written, and a side output that was never written.\<close>

definition fresh_tensor :: Tensor where
  "fresh_tensor = \<lparr>sizes = [0], dtype = \<lparr>itemsize = 0, name = ''nullptr (uninitialized)''\<rparr>,
                    raw_data = []\<rparr>"

definition fresh_int_tensor :: IntTensor where
  "fresh_int_tensor = \<lparr>isizes = [0], idata = []\<rparr>"

text \<open>The 2 by 3 byte matrix with rows 1 2 3 and 4 5 6, and a second one.\<close>

definition matrix_2_3 :: Tensor where
  "matrix_2_3 = \<lparr>sizes = [2, 3], dtype = uint8_meta, raw_data = [1, 2, 3, 4, 5, 6]\<rparr>"

definition matrix_2_3' :: Tensor where
  "matrix_2_3' = \<lparr>sizes = [2, 3], dtype = uint8_meta, raw_data = [7, 8, 9, 10, 11, 12]\<rparr>"

definition matrix_2_4 :: Tensor where
  "matrix_2_4 = \<lparr>sizes = [2, 4], dtype = uint8_meta, raw_data = [1, 2, 3, 4, 5, 6, 7, 8]\<rparr>"

text \<open>A 5 by 4 byte matrix.\<close>

definition matrix_5_4 :: Tensor where
  "matrix_5_4 = \<lparr>sizes = [5, 4], dtype = uint8_meta, raw_data = replicate 20 7\<rparr>"

text \<open>A vector of 6 bytes, and the length list 1, 1, 2, 2.\<close>

definition vector_6 :: Tensor where
  "vector_6 = \<lparr>sizes = [6], dtype = uint8_meta, raw_data = [1, 2, 3, 4, 5, 6]\<rparr>"

definition lengths_1_1_2_2 :: IntTensor where
  "lengths_1_1_2_2 = \<lparr>isizes = [4], idata = [1, 1, 2, 2]\<rparr>"

lemmas example_defs =
  uint8_meta_def int16_meta_def fresh_tensor_def fresh_int_tensor_def matrix_2_3_def
  matrix_2_3'_def matrix_2_4_def matrix_5_4_def vector_6_def lengths_1_1_2_2_def

section \<open>Which errors a step can raise\<close>

lemma memcpy_error: "memcpy dst d src s n = Inl e \<Longrightarrow> e = UndefinedBehaviour"
  by (simp add: memcpy_def split: if_splits)

lemma copy_rows_error:
  "copy_rows m n A a lda B b ldb = Inl e \<Longrightarrow> e = UndefinedBehaviour"
  by (induction m arbitrary: a B b) (auto split: sum.splits dest: memcpy_error)

lemma CopyMatrix_error:
  "CopyMatrix s M N A a lda B b ldb = Inl e \<Longrightarrow> e = UndefinedBehaviour"
  by (auto simp: CopyMatrix_def split: if_splits dest: copy_rows_error)

lemma raw_mutable_data_error: "raw_mutable_data t meta = Inl e \<Longrightarrow> e = UndefinedBehaviour"
  by (simp add: raw_mutable_data_def Let_def split: if_splits)

lemma dim32_error: "dim32 t i = Inl e \<Longrightarrow> e = ExceedingNdimLimit"
  by (simp add: dim32_def split: if_splits)

lemma data_int_error: "data_int t = Inl e \<Longrightarrow> e = UndefinedBehaviour"
  by (simp add: data_int_def split: if_splits)

lemma SplitOp_copy_loop_error:
  "SplitOp_copy_loop input add_axis c bs as od off ad outs = Inl e
     \<Longrightarrow> e = UndefinedBehaviour \<or> e = ExceedingNdimLimit"
proof (induction outs arbitrary: od off ad)
  case Nil
  then show ?case by simp
next
  case (Cons out outs)
  show ?case
  proof (cases ad)
    case Nil
    with Cons.prems show ?thesis by simp
  next
    case (Cons a ad')
    with Cons.prems Cons.IH show ?thesis
      by (auto simp: Let_def split: sum.splits
            dest: dim32_error raw_mutable_data_error CopyMatrix_error)
  qed
qed

lemma SplitOp_axis_data_error:
  "SplitOp_axis_data op st ic n = Inl e \<Longrightarrow> e \<noteq> AxisOutOfRange"
  by (auto simp: SplitOp_axis_data_def split: option.splits if_splits dest: data_int_error)

section \<open>Axis resolution\<close>

lemma canonical_axis_index'_Inr:
  "canonical_axis_index' a n = Inr c \<longleftrightarrow>
     c = (if a \<ge> 0 then a else n + a) \<and> 0 \<le> c \<and> c < n"
  by (auto simp: canonical_axis_index'_def Let_def)

lemma canonical_axis_index'_Inl:
  "canonical_axis_index' a n = Inl e \<longleftrightarrow>
     e = AxisOutOfRange \<and>
     \<not> (0 \<le> (if a \<ge> 0 then a else n + a) \<and> (if a \<ge> 0 then a else n + a) < n)"
  by (auto simp: canonical_axis_index'_def Let_def)

lemma canonical_axis_index'_last:
  "canonical_axis_index' (- 1) n = canonical_axis_index' (n - 1) n"
  by (simp add: canonical_axis_index'_def Let_def)

text \<open>
  Claim C2, as the code has it. \<^verbatim>\<open>SplitOp::RunOnDevice\<close> resolves the axis against the
  rank of its input and makes no add-axis adjustment: whatever the add-axis flag, the
  run fails with \<open>AxisOutOfRange\<close> exactly when the canonical axis (the raw axis, or
  rank plus raw axis when that is negative) is outside \<open>[0, rank)\<close>.
\<close>

theorem SplitOp_axis_range:
  "SplitOp_RunOnDevice op input split_tensor outputs = Inl AxisOutOfRange \<longleftrightarrow>
     \<not> (0 \<le> (if SplitOp_axis op \<ge> 0 then SplitOp_axis op else ndim input + SplitOp_axis op)
        \<and> (if SplitOp_axis op \<ge> 0 then SplitOp_axis op else ndim input + SplitOp_axis op)
            < ndim input)"
proof (cases "canonical_axis_index input (SplitOp_axis op)")
  case (Inl e)
  then have "SplitOp_RunOnDevice op input split_tensor outputs = Inl e"
    by (simp add: SplitOp_RunOnDevice_def)
  with Inl show ?thesis
    by (auto simp: canonical_axis_index_def canonical_axis_index'_Inl)
next
  case (Inr c)
  then have c:
      "c = (if SplitOp_axis op \<ge> 0 then SplitOp_axis op else ndim input + SplitOp_axis op)"
      "0 \<le> c" "c < ndim input"
    by (simp_all add: canonical_axis_index_def canonical_axis_index'_Inr)
  have "SplitOp_RunOnDevice op input split_tensor outputs \<noteq> Inl AxisOutOfRange"
    using Inr c(2,3)
    by (auto simp: SplitOp_RunOnDevice_def Let_def split: sum.splits
          dest: dim32_error SplitOp_axis_data_error SplitOp_copy_loop_error)
  with c show ?thesis by simp
qed

text \<open>
  The amended claim at an input: axis 1 of the 2 by 3 matrix is accepted in add-axis
  mode, axis 2 (the rank) is not.
\<close>

theorem SplitOp_axis_range_witness:
  "SplitOp_RunOnDevice \<lparr>SplitOp_axis = 1, SplitOp_add_axis = 1, SplitOp_split = []\<rparr>
      matrix_2_3 None [fresh_tensor, fresh_tensor, fresh_tensor] \<noteq> Inl AxisOutOfRange
   \<and> SplitOp_RunOnDevice \<lparr>SplitOp_axis = 2, SplitOp_add_axis = 1, SplitOp_split = []\<rparr>
      matrix_2_3 None [fresh_tensor, fresh_tensor, fresh_tensor] = Inl AxisOutOfRange"
  using SplitOp_axis_range
          [of "\<lparr>SplitOp_axis = 1, SplitOp_add_axis = 1, SplitOp_split = []\<rparr>" matrix_2_3 None
              "[fresh_tensor, fresh_tensor, fresh_tensor]"]
        SplitOp_axis_range
          [of "\<lparr>SplitOp_axis = 2, SplitOp_add_axis = 1, SplitOp_split = []\<rparr>" matrix_2_3 None
              "[fresh_tensor, fresh_tensor, fresh_tensor]"]
  by (simp add: ndim_def matrix_2_3_def)

text \<open>
  Claim C2 as stated fails: in add-axis mode the canonical axis 2 lies in
  \<open>[0, rank + 1)\<close> for the rank 2 input, and the split is rejected with
  \<open>AxisOutOfRange\<close>.
\<close>

theorem SplitOp_add_axis_range_counterexample:
  "0 \<le> (2::int) \<and> 2 < ndim matrix_2_3 + 1
   \<and> SplitOp_RunOnDevice \<lparr>SplitOp_axis = 2, SplitOp_add_axis = 1, SplitOp_split = []\<rparr>
        matrix_2_3 None [fresh_tensor, fresh_tensor, fresh_tensor] = Inl AxisOutOfRange"
  by (simp add: SplitOp_RunOnDevice_def canonical_axis_index_def canonical_axis_index'_def
        ndim_def matrix_2_3_def)

lemma ndim_matrix_2_3: "ndim matrix_2_3 = 2"
  by (simp add: ndim_def matrix_2_3_def)

lemma canonical_axis_index_matrix_2_3: "canonical_axis_index matrix_2_3 1 = Inr 1"
  by (simp add: canonical_axis_index_def canonical_axis_index'_def ndim_matrix_2_3)

text \<open>
  A run depends on the operator's axis only through the canonical axis it resolves to.
\<close>

lemma SplitOp_axis_data_cong:
  assumes "SplitOp_split op = SplitOp_split op'"
  shows "SplitOp_axis_data op st ic n = SplitOp_axis_data op' st ic n"
  unfolding SplitOp_axis_data_def assms ..

lemma SplitOp_RunOnDevice_cong:
  assumes a: "canonical_axis_index input (SplitOp_axis op) =
              canonical_axis_index input (SplitOp_axis op')"
    and b: "SplitOp_add_axis op = SplitOp_add_axis op'"
    and c: "SplitOp_split op = SplitOp_split op'"
  shows "SplitOp_RunOnDevice op input split_tensor outputs =
         SplitOp_RunOnDevice op' input split_tensor outputs"
  unfolding SplitOp_RunOnDevice_def a b SplitOp_axis_data_cong [OF c] ..

lemma SplitByLengthsOp_RunOnDevice_cong:
  assumes a: "canonical_axis_index input (SplitByLengthsOp_axis op) =
              canonical_axis_index input (SplitByLengthsOp_axis op')"
  shows "SplitByLengthsOp_RunOnDevice op input lengths outputs =
         SplitByLengthsOp_RunOnDevice op' input lengths outputs"
  unfolding SplitByLengthsOp_RunOnDevice_def a ..

lemma ConcatOp_RunOnDevice_cong:
  assumes a: "canonical_axis_index' (ConcatOp_axis op)
                (ndim input + (if ConcatOp_add_axis op' \<noteq> 0 then 1 else 0)) =
              canonical_axis_index' (ConcatOp_axis op')
                (ndim input + (if ConcatOp_add_axis op' \<noteq> 0 then 1 else 0))"
    and b: "ConcatOp_add_axis op = ConcatOp_add_axis op'"
  shows "ConcatOp_RunOnDevice op (input # inputs) outs =
         ConcatOp_RunOnDevice op' (input # inputs) outs"
  unfolding ConcatOp_RunOnDevice_def b list.case Let_def a ..

text \<open>
  Claim C8. A negative raw axis resolves to rank plus raw axis (and is rejected when
  that is still negative); a non-negative raw axis resolves to itself (and is rejected
  when it is not below the rank). So axis \<open>-1\<close> and axis \<open>rank - 1\<close> resolve alike, and
  the three operators run alike on them: both split operators always, the concat
  operator in non-add-axis mode, where the rank is that of input 0.
\<close>

theorem negative_axis_resolution:
  "(axis < 0 \<longrightarrow> canonical_axis_index' axis ndims =
       (if - ndims \<le> axis then Inr (ndims + axis) else Inl AxisOutOfRange))
   \<and> (0 \<le> axis \<longrightarrow> canonical_axis_index' axis ndims =
       (if axis < ndims then Inr axis else Inl AxisOutOfRange))
   \<and> canonical_axis_index' (- 1) ndims = canonical_axis_index' (ndims - 1) ndims
   \<and> SplitOp_RunOnDevice (op\<lparr>SplitOp_axis := - 1\<rparr>) input split_tensor outputs =
       SplitOp_RunOnDevice (op\<lparr>SplitOp_axis := ndim input - 1\<rparr>) input split_tensor outputs
   \<and> SplitByLengthsOp_RunOnDevice (lop\<lparr>SplitByLengthsOp_axis := - 1\<rparr>) input lengths outputs =
       SplitByLengthsOp_RunOnDevice (lop\<lparr>SplitByLengthsOp_axis := ndim input - 1\<rparr>)
         input lengths outputs
   \<and> (ConcatOp_add_axis cop = 0 \<longrightarrow>
       ConcatOp_RunOnDevice (cop\<lparr>ConcatOp_axis := - 1\<rparr>) (input # inputs) outs =
       ConcatOp_RunOnDevice (cop\<lparr>ConcatOp_axis := ndim input - 1\<rparr>) (input # inputs) outs)"
proof (intro conjI impI)
  show "canonical_axis_index' axis ndims =
       (if - ndims \<le> axis then Inr (ndims + axis) else Inl AxisOutOfRange)" if "axis < 0"
    using that by (auto simp: canonical_axis_index'_def Let_def)
  show "canonical_axis_index' axis ndims =
       (if axis < ndims then Inr axis else Inl AxisOutOfRange)" if "0 \<le> axis"
    using that by (auto simp: canonical_axis_index'_def Let_def)
  show "canonical_axis_index' (- 1) ndims = canonical_axis_index' (ndims - 1) ndims"
    by (rule canonical_axis_index'_last)
  show "SplitOp_RunOnDevice (op\<lparr>SplitOp_axis := - 1\<rparr>) input split_tensor outputs =
       SplitOp_RunOnDevice (op\<lparr>SplitOp_axis := ndim input - 1\<rparr>) input split_tensor outputs"
    by (rule SplitOp_RunOnDevice_cong)
       (simp_all add: canonical_axis_index_def canonical_axis_index'_last)
  show "SplitByLengthsOp_RunOnDevice (lop\<lparr>SplitByLengthsOp_axis := - 1\<rparr>) input lengths outputs =
       SplitByLengthsOp_RunOnDevice (lop\<lparr>SplitByLengthsOp_axis := ndim input - 1\<rparr>)
         input lengths outputs"
    by (rule SplitByLengthsOp_RunOnDevice_cong)
       (simp add: canonical_axis_index_def canonical_axis_index'_last)
  show "ConcatOp_RunOnDevice (cop\<lparr>ConcatOp_axis := - 1\<rparr>) (input # inputs) outs =
       ConcatOp_RunOnDevice (cop\<lparr>ConcatOp_axis := ndim input - 1\<rparr>) (input # inputs) outs"
    if "ConcatOp_add_axis cop = 0"
    using that by (intro ConcatOp_RunOnDevice_cong) (simp_all add: canonical_axis_index'_last)
qed

text \<open>
  At inputs: rank 4 resolves \<open>-2\<close> to 2, 3 to 3 and rejects \<open>-5\<close>; concatenating two 2 by
  3 matrices along axis \<open>-1\<close> is concatenating them along axis 1.
\<close>

theorem negative_axis_resolution_witness:
  "canonical_axis_index' (- 2) 4 = Inr 2 \<and> canonical_axis_index' 3 4 = Inr 3
   \<and> canonical_axis_index' (- 5) 4 = Inl AxisOutOfRange
   \<and> ConcatOp_RunOnDevice \<lparr>ConcatOp_axis = - 1, ConcatOp_add_axis = 0\<rparr>
        [matrix_2_3, matrix_2_3'] (fresh_tensor, fresh_int_tensor) =
      ConcatOp_RunOnDevice \<lparr>ConcatOp_axis = 1, ConcatOp_add_axis = 0\<rparr>
        [matrix_2_3, matrix_2_3'] (fresh_tensor, fresh_int_tensor)"
  using negative_axis_resolution [of "- 2" 4]
        negative_axis_resolution [of 3 4]
        negative_axis_resolution [of "- 5" 4]
        negative_axis_resolution [where cop = "\<lparr>ConcatOp_axis = 0, ConcatOp_add_axis = 0\<rparr>"
           and input = matrix_2_3 and inputs = "[matrix_2_3']"
           and outs = "(fresh_tensor, fresh_int_tensor)"]
  by (simp add: ndim_matrix_2_3)

section \<open>Conflicting configuration\<close>

lemma SplitOp_both_specs:
  assumes "SplitOp_split op \<noteq> []"
  shows "SplitOp_RunOnDevice op input (Some t) outputs =
           (if \<exists>c. canonical_axis_index input (SplitOp_axis op) = Inr c
            then Inl ConflictingConfiguration else Inl AxisOutOfRange)"
proof (cases "canonical_axis_index input (SplitOp_axis op)")
  case (Inl e)
  then have run: "SplitOp_RunOnDevice op input (Some t) outputs = Inl e"
    by (simp add: SplitOp_RunOnDevice_def)
  have e: "e = AxisOutOfRange"
    using Inl by (simp add: canonical_axis_index_def canonical_axis_index'_Inl)
  have "\<not> (\<exists>c. canonical_axis_index input (SplitOp_axis op) = Inr c)"
    using Inl by simp
  with run e show ?thesis by simp
next
  case (Inr c)
  then have "0 \<le> c" "c < ndim input"
    by (simp_all add: canonical_axis_index_def canonical_axis_index'_Inr)
  with Inr assms show ?thesis
    by (simp add: SplitOp_RunOnDevice_def SplitOp_axis_data_def dim32_def)
qed

text \<open>
  Claim C9. An operator definition that carries both the \<open>axis\<close> and the \<open>order\<close>
  argument is rejected by each of the three constructors with
  \<open>ConflictingConfiguration\<close>, whatever else it carries and however order strings are
  read. A split that is given the split sizes both as an argument and as a second input
  fails: with \<open>ConflictingConfiguration\<close> once its axis has resolved, and with
  \<open>AxisOutOfRange\<close> when the axis, which is resolved first, does not.
\<close>

theorem conflicting_configuration:
  "(arg_axis d \<noteq> None \<and> arg_order d \<noteq> None \<longrightarrow>
       SplitOp_ctor sto d = Inl ConflictingConfiguration
     \<and> SplitByLengthsOp_ctor sto d = Inl ConflictingConfiguration
     \<and> ConcatOp_ctor sto d = Inl ConflictingConfiguration)
   \<and> (SplitOp_split op \<noteq> [] \<longrightarrow>
       SplitOp_RunOnDevice op input (Some t) outputs =
         (if \<exists>c. canonical_axis_index input (SplitOp_axis op) = Inr c
          then Inl ConflictingConfiguration else Inl AxisOutOfRange))"
proof (intro conjI impI)
  assume "arg_axis d \<noteq> None \<and> arg_order d \<noteq> None"
  then show "SplitOp_ctor sto d = Inl ConflictingConfiguration"
      "SplitByLengthsOp_ctor sto d = Inl ConflictingConfiguration"
      "ConcatOp_ctor sto d = Inl ConflictingConfiguration"
    by (simp_all add: SplitOp_ctor_def SplitByLengthsOp_ctor_def ConcatOp_ctor_def
          HasArgument_axis_def HasArgument_order_def)
next
  assume "SplitOp_split op \<noteq> []"
  then show "SplitOp_RunOnDevice op input (Some t) outputs =
         (if \<exists>c. canonical_axis_index input (SplitOp_axis op) = Inr c
          then Inl ConflictingConfiguration else Inl AxisOutOfRange)"
    by (rule SplitOp_both_specs)
qed

theorem conflicting_configuration_witness:
  "SplitOp_ctor (\<lambda>s. NCHW)
      \<lparr>arg_axis = Some 1, arg_order = Some ''NHWC'', arg_add_axis = None, arg_split = []\<rparr>
     = Inl ConflictingConfiguration
   \<and> SplitByLengthsOp_ctor (\<lambda>s. NCHW)
      \<lparr>arg_axis = Some 1, arg_order = Some ''NHWC'', arg_add_axis = None, arg_split = []\<rparr>
     = Inl ConflictingConfiguration
   \<and> ConcatOp_ctor (\<lambda>s. NCHW)
      \<lparr>arg_axis = Some 1, arg_order = Some ''NHWC'', arg_add_axis = None, arg_split = []\<rparr>
     = Inl ConflictingConfiguration
   \<and> SplitOp_RunOnDevice \<lparr>SplitOp_axis = 1, SplitOp_add_axis = 0, SplitOp_split = [1, 2]\<rparr>
        matrix_2_3 (Some \<lparr>isizes = [2], idata = [1, 2]\<rparr>) [fresh_tensor, fresh_tensor]
     = Inl ConflictingConfiguration"
  using conflicting_configuration
          [of "\<lparr>arg_axis = Some 1, arg_order = Some ''NHWC'', arg_add_axis = None, arg_split = []\<rparr>"
              "\<lambda>s. NCHW" "\<lparr>SplitOp_axis = 1, SplitOp_add_axis = 0, SplitOp_split = [1, 2]\<rparr>"
              matrix_2_3 "\<lparr>isizes = [2], idata = [1, 2]\<rparr>" "[fresh_tensor, fresh_tensor]"]
  by (simp add: canonical_axis_index_matrix_2_3)

section \<open>ConcatOp: the stages of a run\<close>

lemma mutable_data_int_IResize:
  "mutable_data_int (IResize split [int n]) =
     Inr \<lparr>isizes = [int n], idata = take n (idata split @ replicate n 0)\<rparr>"
  by (simp add: mutable_data_int_def IResize_def inumel_def Let_def)


lemma ConcatOp_axis_loop_None:
  "fst (ConcatOp_axis_loop add_axis c i inputs ad oc) = None
     \<Longrightarrow> \<forall>x\<in>set inputs. add_axis \<noteq> 0 \<or> (\<exists>v. dim32 x c = Inr v)"
  by (induction inputs arbitrary: i ad oc) (auto split: sum.splits if_splits)

lemma ConcatOp_axis_loop_error:
  "fst (ConcatOp_axis_loop add_axis c i inputs ad oc) = Some e \<Longrightarrow> e = ExceedingNdimLimit"
  by (induction inputs arbitrary: i ad oc) (auto split: sum.splits if_splits dest: dim32_error)

lemma ConcatOp_copy_loop_error:
  "\<forall>x\<in>set inputs. add_axis \<noteq> 0 \<or> (\<exists>v. dim32 x c = Inr v)
     \<Longrightarrow> fst (ConcatOp_copy_loop z add_axis c bs az oc off inputs out) = Some e
     \<Longrightarrow> e = UndefinedBehaviour"
proof (induction inputs arbitrary: off out)
  case Nil
  then show ?case by simp
next
  case (Cons x xs)
  have ih: "\<And>off out. fst (ConcatOp_copy_loop z add_axis c bs az oc off xs out) = Some e
     \<Longrightarrow> e = UndefinedBehaviour"
    using Cons.IH Cons.prems(1) by simp
  from Cons.prems ih show ?case
    by (auto split: sum.splits if_splits
          dest: raw_mutable_data_error CopyMatrix_error)
qed


lemma ConcatOp_check_dtypes_error:
  "ConcatOp_check_dtypes z i xs = Some e \<Longrightarrow> \<exists>a b k. e = TypeMismatch a b k"
  by (induction xs arbitrary: i) (auto split: if_splits)

lemma ConcatOp_check_dim_error:
  "ConcatOp_check_dim z c i d j xs = Some e \<Longrightarrow> e \<noteq> UndefinedBehaviour"
  by (induction xs arbitrary: j) (auto split: if_splits sum.splits dest: dim32_error)

lemma ConcatOp_dims_loop_error:
  "ConcatOp_dims_loop z rest add_axis c ba ds = Inl e \<Longrightarrow> e \<noteq> UndefinedBehaviour"
  by (induction z rest add_axis c ba ds rule: ConcatOp_dims_loop.induct)
     (auto split: if_splits sum.splits option.splits dest: dim32_error ConcatOp_check_dim_error)

lemmas ConcatOp_run_simps =
  ConcatOp_RunOnDevice_def Let_def mutable_data_int_IResize prod.case list.case sum.case
  option.case if_False if_True not_True_eq_False not_False_eq_True

lemma ConcatOp_run_axis_error:
  assumes "canonical_axis_index' (ConcatOp_axis op) (adj_size_of op z) = Inl e"
  shows "ConcatOp_RunOnDevice op (z # rest) (output, split) =
           (Some e, output, resized_split split (length (z # rest)))"
  by (simp only: ConcatOp_run_simps assms)

lemma ConcatOp_run_dtype_error:
  assumes "canonical_axis_index' (ConcatOp_axis op) (adj_size_of op z) = Inr c"
    and "ConcatOp_check_dtypes z 1 rest = Some e"
  shows "ConcatOp_RunOnDevice op (z # rest) (output, split) =
           (Some e, output, resized_split split (length (z # rest)))"
proof -
  have "c < adj_size_of op z"
    using assms(1) by (simp add: canonical_axis_index'_Inr split del: if_split)
  then show ?thesis
    by (simp only: ConcatOp_run_simps assms)
qed

lemma ConcatOp_run_dims_error:
  assumes "canonical_axis_index' (ConcatOp_axis op) (adj_size_of op z) = Inr c"
    and "ConcatOp_check_dtypes z 1 rest = None"
    and "ConcatOp_dims_loop z rest (ConcatOp_add_axis op) c (1, 1) [0 ..< length (sizes z)]
           = Inl e"
  shows "ConcatOp_RunOnDevice op (z # rest) (output, split) =
           (Some e, output, resized_split split (length (z # rest)))"
proof -
  have "c < adj_size_of op z"
    using assms(1) by (simp add: canonical_axis_index'_Inr split del: if_split)
  then show ?thesis
    by (simp only: ConcatOp_run_simps assms)
qed

lemma ConcatOp_run_record_error:
  assumes "canonical_axis_index' (ConcatOp_axis op) (adj_size_of op z) = Inr c"
    and "ConcatOp_check_dtypes z 1 rest = None"
    and "ConcatOp_dims_loop z rest (ConcatOp_add_axis op) c (1, 1) [0 ..< length (sizes z)]
           = Inr (bs, az)"
    and "ConcatOp_axis_loop (ConcatOp_add_axis op) c 0 (z # rest)
           (idata (resized_split split (length (z # rest)))) 0 = (Some e, ad, oc)"
  shows "ConcatOp_RunOnDevice op (z # rest) (output, split) =
           (Some e, output, (resized_split split (length (z # rest)))\<lparr>idata := ad\<rparr>)"
proof -
  have "c < adj_size_of op z"
    using assms(1) by (simp add: canonical_axis_index'_Inr split del: if_split)
  then show ?thesis
    by (simp only: ConcatOp_run_simps assms)
qed

lemma ConcatOp_run_copy:
  assumes "canonical_axis_index' (ConcatOp_axis op) (adj_size_of op z) = Inr c"
    and "ConcatOp_check_dtypes z 1 rest = None"
    and "ConcatOp_dims_loop z rest (ConcatOp_add_axis op) c (1, 1) [0 ..< length (sizes z)]
           = Inr (bs, az)"
    and "ConcatOp_axis_loop (ConcatOp_add_axis op) c 0 (z # rest)
           (idata (resized_split split (length (z # rest)))) 0 = (None, ad, oc)"
    and "ConcatOp_copy_loop z (ConcatOp_add_axis op) c bs az oc 0 (z # rest)
           (Resize output
              (if ConcatOp_add_axis op \<noteq> 0
               then take (nat c) (sizes z) @ [oc] @ drop (nat c) (sizes z)
               else (sizes z)[nat c := oc])) = (r, out)"
  shows "ConcatOp_RunOnDevice op (z # rest) (output, split) =
           (r, out, (resized_split split (length (z # rest)))\<lparr>idata := ad\<rparr>)"
proof -
  have "c < adj_size_of op z"
    using assms(1) by (simp add: canonical_axis_index'_Inr split del: if_split)
  then show ?thesis
    by (simp only: ConcatOp_run_simps assms)
qed

lemma ConcatOp_run_no_input:
  "ConcatOp_RunOnDevice op [] (output, split) =
     (Some UndefinedBehaviour, output, resized_split split 0)"
  by (simp add: ConcatOp_RunOnDevice_def mutable_data_int_def IResize_def inumel_def)

text \<open>
  Claim C3, as the code has it. When a concat run throws (any error but the marker of
  undefined behaviour, which is no failure return), the concatenated output is the
  tensor it was before the call: every enforce lies before the first write to it (line
  311). The side output is not: lines 248 and 249 resize it to one entry per input
  before anything is validated.
\<close>

theorem ConcatOp_failure_state:
  assumes fail: "fst (ConcatOp_RunOnDevice op inputs (output, split)) = Some e"
    and e: "e \<noteq> UndefinedBehaviour"
  shows "fst (snd (ConcatOp_RunOnDevice op inputs (output, split))) = output
       \<and> isizes (snd (snd (ConcatOp_RunOnDevice op inputs (output, split))))
           = [int (length inputs)]"
proof (cases inputs)
  case Nil
  with fail e show ?thesis by (simp add: ConcatOp_run_no_input)
next
  case (Cons z rest)
  show ?thesis
  proof (cases "canonical_axis_index' (ConcatOp_axis op) (adj_size_of op z)")
    case (Inl e')
    show ?thesis
      unfolding Cons ConcatOp_run_axis_error [OF Inl] by simp
  next
    case (Inr c)
    note ax = this
    show ?thesis
    proof (cases "ConcatOp_check_dtypes z 1 rest")
      case (Some e')
      show ?thesis
        unfolding Cons ConcatOp_run_dtype_error [OF ax Some] by simp
    next
      case None
      note ty = this
      show ?thesis
      proof (cases "ConcatOp_dims_loop z rest (ConcatOp_add_axis op) c (1, 1)
                      [0 ..< length (sizes z)]")
        case (Inl e')
        show ?thesis
          unfolding Cons ConcatOp_run_dims_error [OF ax ty Inl] by simp
      next
        case (Inr ba)
        obtain bs az where ba: "ba = (bs, az)" by (cases ba)
        note dm = Inr [unfolded ba]
        obtain eo ad oc where al:
          "ConcatOp_axis_loop (ConcatOp_add_axis op) c 0 (z # rest)
             (idata (resized_split split (length (z # rest)))) 0 = (eo, ad, oc)"
          by (rule prod_cases3)
        show ?thesis
        proof (cases eo)
          case (Some e')
          show ?thesis
            unfolding Cons ConcatOp_run_record_error [OF ax ty dm al [unfolded Some]] by simp
        next
          case None
          obtain r out where cp:
            "ConcatOp_copy_loop z (ConcatOp_add_axis op) c bs az oc 0 (z # rest)
               (Resize output
                  (if ConcatOp_add_axis op \<noteq> 0
                   then take (nat c) (sizes z) @ [oc] @ drop (nat c) (sizes z)
                   else (sizes z)[nat c := oc])) = (r, out)"
            by (rule prod.exhaust)
          note run = ConcatOp_run_copy [OF ax ty dm al [unfolded None] cp]
          from fail have r: "r = Some e"
            unfolding Cons run by simp
          have "fst (ConcatOp_axis_loop (ConcatOp_add_axis op) c 0 (z # rest)
                  (idata (resized_split split (length (z # rest)))) 0) = None"
            by (simp only: al None fst_conv)
          then have dims:
            "\<forall>x\<in>set (z # rest). ConcatOp_add_axis op \<noteq> 0 \<or> (\<exists>v. dim32 x c = Inr v)"
            by (rule ConcatOp_axis_loop_None)
          have "fst (ConcatOp_copy_loop z (ConcatOp_add_axis op) c bs az oc 0 (z # rest)
               (Resize output
                  (if ConcatOp_add_axis op \<noteq> 0
                   then take (nat c) (sizes z) @ [oc] @ drop (nat c) (sizes z)
                   else (sizes z)[nat c := oc]))) = Some e"
            by (simp only: cp r fst_conv)
          with dims have "e = UndefinedBehaviour"
            by (rule ConcatOp_copy_loop_error)
          with e show ?thesis by simp
        qed
      qed
    qed
  qed
qed

text \<open>
  At an input: two 2 by 3 matrices of different element types fail with \<open>TypeMismatch\<close>,
  the output is untouched and the side output has shape \<open>[2]\<close>.
\<close>

theorem ConcatOp_failure_state_witness:
  "fst (ConcatOp_RunOnDevice \<lparr>ConcatOp_axis = 0, ConcatOp_add_axis = 0\<rparr>
          [matrix_2_3, matrix_2_3\<lparr>dtype := int16_meta\<rparr>] (fresh_tensor, fresh_int_tensor))
     = Some (TypeMismatch ''uint8'' ''int16'' 1)
   \<and> fst (snd (ConcatOp_RunOnDevice \<lparr>ConcatOp_axis = 0, ConcatOp_add_axis = 0\<rparr>
          [matrix_2_3, matrix_2_3\<lparr>dtype := int16_meta\<rparr>] (fresh_tensor, fresh_int_tensor)))
     = fresh_tensor
   \<and> isizes (snd (snd (ConcatOp_RunOnDevice \<lparr>ConcatOp_axis = 0, ConcatOp_add_axis = 0\<rparr>
          [matrix_2_3, matrix_2_3\<lparr>dtype := int16_meta\<rparr>] (fresh_tensor, fresh_int_tensor))))
     = [2]"
proof -
  have ax: "canonical_axis_index' (ConcatOp_axis \<lparr>ConcatOp_axis = 0, ConcatOp_add_axis = 0\<rparr>)
          (adj_size_of \<lparr>ConcatOp_axis = 0, ConcatOp_add_axis = 0\<rparr> matrix_2_3) = Inr 0"
    by (simp add: canonical_axis_index'_def ndim_def matrix_2_3_def)
  have ty: "ConcatOp_check_dtypes matrix_2_3 1 [matrix_2_3\<lparr>dtype := int16_meta\<rparr>]
          = Some (TypeMismatch ''uint8'' ''int16'' 1)"
    by (simp add: example_defs)
  note run = ConcatOp_run_dtype_error [OF ax ty, of fresh_tensor fresh_int_tensor]
  have f: "fst (ConcatOp_RunOnDevice \<lparr>ConcatOp_axis = 0, ConcatOp_add_axis = 0\<rparr>
          [matrix_2_3, matrix_2_3\<lparr>dtype := int16_meta\<rparr>] (fresh_tensor, fresh_int_tensor))
     = Some (TypeMismatch ''uint8'' ''int16'' 1)"
    unfolding run by simp
  from ConcatOp_failure_state [OF f] f show ?thesis by simp
qed

text \<open>
  Claim C3 as stated fails: on that failing run the side output, of shape \<open>[0]\<close> before
  the call, has shape \<open>[2]\<close> after it.
\<close>

theorem ConcatOp_side_output_counterexample:
  "fst (ConcatOp_RunOnDevice \<lparr>ConcatOp_axis = 0, ConcatOp_add_axis = 0\<rparr>
          [matrix_2_3, matrix_2_3\<lparr>dtype := int16_meta\<rparr>] (fresh_tensor, fresh_int_tensor))
     = Some (TypeMismatch ''uint8'' ''int16'' 1)
   \<and> snd (snd (ConcatOp_RunOnDevice \<lparr>ConcatOp_axis = 0, ConcatOp_add_axis = 0\<rparr>
          [matrix_2_3, matrix_2_3\<lparr>dtype := int16_meta\<rparr>] (fresh_tensor, fresh_int_tensor)))
     \<noteq> fresh_int_tensor
   \<and> isizes fresh_int_tensor = [0]
   \<and> isizes (snd (snd (ConcatOp_RunOnDevice \<lparr>ConcatOp_axis = 0, ConcatOp_add_axis = 0\<rparr>
          [matrix_2_3, matrix_2_3\<lparr>dtype := int16_meta\<rparr>] (fresh_tensor, fresh_int_tensor))))
     = [2]"
proof -
  have ax: "canonical_axis_index' (ConcatOp_axis \<lparr>ConcatOp_axis = 0, ConcatOp_add_axis = 0\<rparr>)
          (adj_size_of \<lparr>ConcatOp_axis = 0, ConcatOp_add_axis = 0\<rparr> matrix_2_3) = Inr 0"
    by (simp add: canonical_axis_index'_def ndim_def matrix_2_3_def)
  have ty: "ConcatOp_check_dtypes matrix_2_3 1 [matrix_2_3\<lparr>dtype := int16_meta\<rparr>]
          = Some (TypeMismatch ''uint8'' ''int16'' 1)"
    by (simp add: example_defs)
  note run = ConcatOp_run_dtype_error [OF ax ty, of fresh_tensor fresh_int_tensor]
  show ?thesis
    unfolding run by (simp add: fresh_int_tensor_def)
qed

section \<open>ConcatOp: shape validation\<close>

lemma ConcatOp_check_dtypes_None:
  "\<forall>x\<in>set xs. dtype x = dtype z \<Longrightarrow> ConcatOp_check_dtypes z i xs = None"
  by (induction xs arbitrary: i) auto

lemma ConcatOp_check_dim_None_iff:
  "\<forall>x\<in>set xs. int i < ndim x
     \<Longrightarrow> ConcatOp_check_dim z c i d j xs = None \<longleftrightarrow> (\<forall>x\<in>set xs. sizes x ! i = d)"
  by (induction xs arbitrary: j) (auto simp: dim32_def)

lemma ConcatOp_check_dim_Some:
  "\<forall>x\<in>set xs. int i < ndim x \<Longrightarrow> ConcatOp_check_dim z c i d j xs = Some e
     \<Longrightarrow> \<exists>k<length xs. e = ShapeMismatch d (sizes (xs ! k) ! i) i (j + k) c
                              (sizes z) (sizes (xs ! k))
                        \<and> sizes (xs ! k) ! i \<noteq> d"
proof (induction xs arbitrary: j)
  case Nil
  then show ?case by simp
next
  case (Cons x xs)
  show ?case
  proof (cases "sizes x ! i = d")
    case True
    with Cons.prems have "ConcatOp_check_dim z c i d (Suc j) xs = Some e"
      by (simp add: dim32_def)
    from Cons.IH [OF _ this] Cons.prems(1) obtain k where "k < length xs"
      "e = ShapeMismatch d (sizes (xs ! k) ! i) i (Suc j + k) c (sizes z) (sizes (xs ! k))"
      "sizes (xs ! k) ! i \<noteq> d"
      by auto
    then show ?thesis
      by (intro exI [of _ "Suc k"]) simp
  next
    case False
    with Cons.prems show ?thesis
      by (intro exI [of _ 0]) (simp add: dim32_def)
  qed
qed

lemma ConcatOp_dims_loop_Inl:
  assumes "\<forall>i\<in>set ds. i < length (sizes z)" and "\<forall>x\<in>set rest. ndim z \<le> ndim x"
    and "ConcatOp_dims_loop z rest add_axis c ba ds = Inl e"
  shows "\<exists>i\<in>set ds. \<not> (int i = c \<and> add_axis = 0) \<and>
           (\<exists>k<length rest. e = ShapeMismatch (sizes z ! i) (sizes (rest ! k) ! i) i (Suc k) c
                                  (sizes z) (sizes (rest ! k))
                            \<and> sizes (rest ! k) ! i \<noteq> sizes z ! i)"
  using assms
proof (induction z rest add_axis c ba ds rule: ConcatOp_dims_loop.induct)
  case (1 z rest add_axis c bs az)
  then show ?case by simp
next
  case (2 z rest add_axis c bs az i ds)
  have i: "i < length (sizes z)" and rk: "\<forall>x\<in>set rest. int i < ndim x"
    using "2.prems"(1,2) by (auto simp: ndim_def)
  show ?case
  proof (cases "int i = c \<and> add_axis = 0")
    case True
    with "2.prems" "2.IH"(1) show ?thesis by auto
  next
    case skip: False
    have d: "dim32 z (int i) = Inr (sizes z ! i)"
      using i by (simp add: dim32_def ndim_def)
    show ?thesis
    proof (cases "ConcatOp_check_dim z c i (sizes z ! i) 1 rest")
      case None
      with skip d "2.prems" "2.IH"(2) [OF skip d None] show ?thesis
        by auto
    next
      case (Some e')
      with skip d "2.prems"(3) have "e' = e" by auto
      with ConcatOp_check_dim_Some [OF rk Some] skip show ?thesis
        by auto
    qed
  qed
qed

lemma ConcatOp_dims_loop_Inr:
  assumes "\<forall>i\<in>set ds. i < length (sizes z)" and "\<forall>x\<in>set rest. ndim z \<le> ndim x"
    and "ConcatOp_dims_loop z rest add_axis c ba ds = Inr ba'"
  shows "\<forall>i\<in>set ds. (int i = c \<and> add_axis = 0) \<or> (\<forall>x\<in>set rest. sizes x ! i = sizes z ! i)"
  using assms
proof (induction z rest add_axis c ba ds rule: ConcatOp_dims_loop.induct)
  case (1 z rest add_axis c bs az)
  then show ?case by simp
next
  case (2 z rest add_axis c bs az i ds)
  have i: "i < length (sizes z)" and rk: "\<forall>x\<in>set rest. int i < ndim x"
    using "2.prems"(1,2) by (auto simp: ndim_def)
  show ?case
  proof (cases "int i = c \<and> add_axis = 0")
    case True
    with "2.prems" "2.IH"(1) show ?thesis by auto
  next
    case skip: False
    have d: "dim32 z (int i) = Inr (sizes z ! i)"
      using i by (simp add: dim32_def ndim_def)
    show ?thesis
    proof (cases "ConcatOp_check_dim z c i (sizes z ! i) 1 rest")
      case None
      then have here: "\<forall>x\<in>set rest. sizes x ! i = sizes z ! i"
        using ConcatOp_check_dim_None_iff [OF rk] by simp
      have "ConcatOp_dims_loop z rest add_axis c
              (if int i < c then (bs * (sizes z ! i), az) else (bs, az * (sizes z ! i))) ds
            = Inr ba'"
        using None skip d "2.prems"(3) by auto
      with "2.IH"(2) [OF skip d None] "2.prems"(1,2)
      have "\<forall>i\<in>set ds. (int i = c \<and> add_axis = 0)
              \<or> (\<forall>x\<in>set rest. sizes x ! i = sizes z ! i)"
        by simp
      with here show ?thesis by simp
    next
      case (Some e')
      with skip d "2.prems"(3) show ?thesis by auto
    qed
  qed
qed

lemma ConcatOp_run_not_ShapeMismatch:
  assumes ax: "canonical_axis_index' (ConcatOp_axis op) (adj_size_of op z) = Inr c"
    and ty: "ConcatOp_check_dtypes z 1 rest = None"
    and dm: "ConcatOp_dims_loop z rest (ConcatOp_add_axis op) c (1, 1) [0 ..< length (sizes z)]
           = Inr (bs, az)"
  shows "fst (ConcatOp_RunOnDevice op (z # rest) (output, split))
           \<noteq> Some (ShapeMismatch d dj i j c' s s')"
proof -
  obtain eo ad oc where al:
    "ConcatOp_axis_loop (ConcatOp_add_axis op) c 0 (z # rest)
       (idata (resized_split split (length (z # rest)))) 0 = (eo, ad, oc)"
    by (rule prod_cases3)
  show ?thesis
  proof (cases eo)
    case (Some e)
    have "fst (ConcatOp_axis_loop (ConcatOp_add_axis op) c 0 (z # rest)
       (idata (resized_split split (length (z # rest)))) 0) = Some e"
      by (simp only: al Some fst_conv)
    then have "e = ExceedingNdimLimit"
      by (rule ConcatOp_axis_loop_error)
    then show ?thesis
      unfolding ConcatOp_run_record_error [OF ax ty dm al [unfolded Some]] by simp
  next
    case None
    obtain r out where cp:
      "ConcatOp_copy_loop z (ConcatOp_add_axis op) c bs az oc 0 (z # rest)
         (Resize output
            (if ConcatOp_add_axis op \<noteq> 0
             then take (nat c) (sizes z) @ [oc] @ drop (nat c) (sizes z)
             else (sizes z)[nat c := oc])) = (r, out)"
      by (rule prod.exhaust)
    have "fst (ConcatOp_axis_loop (ConcatOp_add_axis op) c 0 (z # rest)
            (idata (resized_split split (length (z # rest)))) 0) = None"
      by (simp only: al None fst_conv)
    then have dims:
      "\<forall>x\<in>set (z # rest). ConcatOp_add_axis op \<noteq> 0 \<or> (\<exists>v. dim32 x c = Inr v)"
      by (rule ConcatOp_axis_loop_None)
    have "r \<noteq> Some (ShapeMismatch d dj i j c' s s')"
    proof
      assume "r = Some (ShapeMismatch d dj i j c' s s')"
      then have "fst (ConcatOp_copy_loop z (ConcatOp_add_axis op) c bs az oc 0 (z # rest)
         (Resize output
            (if ConcatOp_add_axis op \<noteq> 0
             then take (nat c) (sizes z) @ [oc] @ drop (nat c) (sizes z)
             else (sizes z)[nat c := oc]))) = Some (ShapeMismatch d dj i j c' s s')"
        by (simp only: cp fst_conv)
      with dims have "ShapeMismatch d dj i j c' s s' = UndefinedBehaviour"
        by (rule ConcatOp_copy_loop_error)
      then show False by simp
    qed
    then show ?thesis
      unfolding ConcatOp_run_copy [OF ax ty dm al [unfolded None] cp] by simp
  qed
qed

text \<open>
  Claim C4. Take a concat run whose axis has resolved to \<open>c\<close>, whose inputs all have the
  element type of input 0 and at least its rank (so that each has an extent at every
  dimension of input 0). If some input differs from input 0 at a dimension of input 0
  other than \<open>c\<close> (at any dimension of input 0, in add-axis mode), the run fails with
  \<open>ShapeMismatch\<close>, and the error carries such a dimension \<open>i\<close>, such an input \<open>j\<close>, the
  two extents that differ and the two shapes. If no input differs there, the run does
  not fail with \<open>ShapeMismatch\<close>.
\<close>

theorem ConcatOp_shape_mismatch:
  assumes ax: "canonical_axis_index' (ConcatOp_axis op) (adj_size_of op z) = Inr c"
    and ty: "\<forall>x\<in>set rest. dtype x = dtype z"
    and rk: "\<forall>x\<in>set rest. ndim z \<le> ndim x"
  shows "((\<exists>i<length (sizes z). (ConcatOp_add_axis op \<noteq> 0 \<or> int i \<noteq> c)
              \<and> (\<exists>x\<in>set rest. sizes x ! i \<noteq> sizes z ! i)) \<longrightarrow>
          (\<exists>i j. i < length (sizes z) \<and> (ConcatOp_add_axis op \<noteq> 0 \<or> int i \<noteq> c)
              \<and> 1 \<le> j \<and> j < length (z # rest)
              \<and> sizes ((z # rest) ! j) ! i \<noteq> sizes z ! i
              \<and> fst (ConcatOp_RunOnDevice op (z # rest) (output, split)) =
                  Some (ShapeMismatch (sizes z ! i) (sizes ((z # rest) ! j) ! i) i j c
                          (sizes z) (sizes ((z # rest) ! j)))))
       \<and> (\<not> (\<exists>i<length (sizes z). (ConcatOp_add_axis op \<noteq> 0 \<or> int i \<noteq> c)
              \<and> (\<exists>x\<in>set rest. sizes x ! i \<noteq> sizes z ! i)) \<longrightarrow>
          (\<forall>d dj i j c' s s'. fst (ConcatOp_RunOnDevice op (z # rest) (output, split))
              \<noteq> Some (ShapeMismatch d dj i j c' s s')))"
proof (intro conjI impI)
  note ty' = ConcatOp_check_dtypes_None [OF ty, of 1]
  have ds: "\<forall>i\<in>set [0 ..< length (sizes z)]. i < length (sizes z)" by simp
  {
    assume mis: "\<exists>i<length (sizes z). (ConcatOp_add_axis op \<noteq> 0 \<or> int i \<noteq> c)
              \<and> (\<exists>x\<in>set rest. sizes x ! i \<noteq> sizes z ! i)"
    show "\<exists>i j. i < length (sizes z) \<and> (ConcatOp_add_axis op \<noteq> 0 \<or> int i \<noteq> c)
              \<and> 1 \<le> j \<and> j < length (z # rest)
              \<and> sizes ((z # rest) ! j) ! i \<noteq> sizes z ! i
              \<and> fst (ConcatOp_RunOnDevice op (z # rest) (output, split)) =
                  Some (ShapeMismatch (sizes z ! i) (sizes ((z # rest) ! j) ! i) i j c
                          (sizes z) (sizes ((z # rest) ! j)))"
    proof (cases "ConcatOp_dims_loop z rest (ConcatOp_add_axis op) c (1, 1)
                      [0 ..< length (sizes z)]")
      case (Inr ba)
      from ConcatOp_dims_loop_Inr [OF ds rk Inr] mis show ?thesis
        by auto
    next
      case (Inl e)
      from ConcatOp_dims_loop_Inl [OF ds rk Inl] obtain i k where
        i: "i < length (sizes z)" "\<not> (int i = c \<and> ConcatOp_add_axis op = 0)"
        and k: "k < length rest"
        and e: "e = ShapeMismatch (sizes z ! i) (sizes (rest ! k) ! i) i (Suc k) c
                      (sizes z) (sizes (rest ! k))"
        and ne: "sizes (rest ! k) ! i \<noteq> sizes z ! i"
        by auto
      have "fst (ConcatOp_RunOnDevice op (z # rest) (output, split)) = Some e"
        unfolding ConcatOp_run_dims_error [OF ax ty' Inl] by simp
      with i k e ne show ?thesis
        by (intro exI [of _ i] exI [of _ "Suc k"]) auto
    qed
  }
  {
    assume ok: "\<not> (\<exists>i<length (sizes z). (ConcatOp_add_axis op \<noteq> 0 \<or> int i \<noteq> c)
              \<and> (\<exists>x\<in>set rest. sizes x ! i \<noteq> sizes z ! i))"
    show "\<forall>d dj i j c' s s'. fst (ConcatOp_RunOnDevice op (z # rest) (output, split))
              \<noteq> Some (ShapeMismatch d dj i j c' s s')"
    proof (cases "ConcatOp_dims_loop z rest (ConcatOp_add_axis op) c (1, 1)
                      [0 ..< length (sizes z)]")
      case (Inl e)
      from ConcatOp_dims_loop_Inl [OF ds rk Inl] obtain i k where
        "i < length (sizes z)" "\<not> (int i = c \<and> ConcatOp_add_axis op = 0)"
        "k < length rest" "sizes (rest ! k) ! i \<noteq> sizes z ! i"
        by auto
      moreover from this have "rest ! k \<in> set rest" by simp
      ultimately have "\<exists>i<length (sizes z). (ConcatOp_add_axis op \<noteq> 0 \<or> int i \<noteq> c)
              \<and> (\<exists>x\<in>set rest. sizes x ! i \<noteq> sizes z ! i)"
        by blast
      with ok show ?thesis by blast
    next
      case (Inr ba)
      obtain bs az where "ba = (bs, az)" by (cases ba)
      with Inr ConcatOp_run_not_ShapeMismatch [OF ax ty'] show ?thesis
        by simp
    qed
  }
qed

lemma ax_matrix_2_3_axis0:
  "canonical_axis_index' (ConcatOp_axis \<lparr>ConcatOp_axis = 0, ConcatOp_add_axis = 0\<rparr>)
     (adj_size_of \<lparr>ConcatOp_axis = 0, ConcatOp_add_axis = 0\<rparr> matrix_2_3) = Inr 0"
  by (simp add: canonical_axis_index'_def ndim_def matrix_2_3_def)

text \<open>
  The example of the claim: shapes \<open>[2, 3]\<close> and \<open>[2, 4]\<close> along axis 0 fail, with extents
  3 and 4 at dimension 1 of input 1.
\<close>

theorem ConcatOp_shape_mismatch_witness:
  "fst (ConcatOp_RunOnDevice \<lparr>ConcatOp_axis = 0, ConcatOp_add_axis = 0\<rparr>
          [matrix_2_3, matrix_2_4] (fresh_tensor, fresh_int_tensor))
     = Some (ShapeMismatch 3 4 1 1 0 [2, 3] [2, 4])"
proof -
  have ty: "\<forall>x\<in>set [matrix_2_4]. dtype x = dtype matrix_2_3"
    by (simp add: matrix_2_3_def matrix_2_4_def)
  have rk: "\<forall>x\<in>set [matrix_2_4]. ndim matrix_2_3 \<le> ndim x"
    by (simp add: matrix_2_3_def matrix_2_4_def ndim_def)
  have mis: "\<exists>i<length (sizes matrix_2_3).
       (ConcatOp_add_axis \<lparr>ConcatOp_axis = 0, ConcatOp_add_axis = 0\<rparr> \<noteq> 0 \<or> int i \<noteq> 0)
       \<and> (\<exists>x\<in>set [matrix_2_4]. sizes x ! i \<noteq> sizes matrix_2_3 ! i)"
    by (intro exI [of _ 1]) (simp add: matrix_2_3_def matrix_2_4_def)
  from ConcatOp_shape_mismatch
         [OF ax_matrix_2_3_axis0 ty rk, of fresh_tensor fresh_int_tensor, THEN conjunct1,
          THEN mp, OF mis]
  obtain i j where "i < length (sizes matrix_2_3)" "int i \<noteq> 0" "1 \<le> j"
    "j < length [matrix_2_3, matrix_2_4]"
    and run: "fst (ConcatOp_RunOnDevice \<lparr>ConcatOp_axis = 0, ConcatOp_add_axis = 0\<rparr>
          [matrix_2_3, matrix_2_4] (fresh_tensor, fresh_int_tensor)) =
       Some (ShapeMismatch (sizes matrix_2_3 ! i) (sizes ([matrix_2_3, matrix_2_4] ! j) ! i)
               i j 0 (sizes matrix_2_3) (sizes ([matrix_2_3, matrix_2_4] ! j)))"
    by (elim exE conjE) simp
  then have "i = 1" "j = 1"
    by (simp_all add: matrix_2_3_def)
  with run show ?thesis
    by (simp add: matrix_2_3_def matrix_2_4_def)
qed

section \<open>The strided copy, position by position\<close>














section \<open>SplitOp: what a run returns\<close>










section \<open>SplitOp: the equal split\<close>







section \<open>SplitOp: add-axis mode\<close>




section \<open>SplitByLengthsOp\<close>











section \<open>ConcatOp: what the loops compute\<close>










section \<open>Split, then concat\<close>






section \<open>ConcatOp: add-axis mode\<close>








end
